theory Spec2Isabelle
  imports Main
begin

section \<open>Values of a request\<close>

text \<open>
  The routes of src/router.ts validate the path parameter and the fields of the JSON
  body with chains of express-validator. A field of a parsed body (\<open>req.body.name\<close>)
  is absent, null, a boolean, a number or a string; arrays and nested objects are not
  modelled. A number is kept as the decimal \<open>mantissa * 10 ^ exponent\<close> that
  JavaScript prints for it, so the rounding of doubles plays no part, except where a
  string is converted to a number. Characters of a string are code units below 256.
\<close>

datatype number = Number (mantissa: int) (exponent: int)

datatype jsvalue = JUndefined | JNull | JBool bool | JNum number | JStr string

type_synonym body = "string \<rightharpoonup> jsvalue"

definition field :: "body \<Rightarrow> string \<Rightarrow> jsvalue" where
  "field b k = (case b k of None \<Rightarrow> JUndefined | Some v \<Rightarrow> v)"

section \<open>JavaScript conversions used by the validators\<close>

text \<open>
  The conversions of the language and of the two libraries that router.ts calls are not
  code of the repository; they are written here after the ECMAScript specification and
  the sources of express-validator and validator.js.
\<close>

definition is_digit :: "char \<Rightarrow> bool" where
  "is_digit c = (c \<in> set ''0123456789'')"

definition digit_val :: "char \<Rightarrow> nat" where
  "digit_val c =
     (if is_digit c then of_char c - 48
      else if c \<in> set ''abcdef'' then of_char c - 87
      else of_char c - 55)"

definition nat_of_digits :: "nat \<Rightarrow> string \<Rightarrow> nat" where
  "nat_of_digits b s = foldl (\<lambda>a c. a * b + digit_val c) 0 s"

function digits_of :: "nat \<Rightarrow> string" where
  "digits_of n =
     (if n < 10 then [char_of (48 + n)]
      else digits_of (n div 10) @ [char_of (48 + n mod 10)])"
  by pat_completeness auto
termination
  by (relation "measure id") auto

declare digits_of.simps [simp del]

definition strip_zeros :: "string \<Rightarrow> string" where
  "strip_zeros ds = rev (dropWhile (\<lambda>c. c = CHR ''0'') (rev ds))"

text \<open>
  \<open>Number::toString\<close> of ECMAScript, radix 10, for a finite number: with \<open>k\<close>
  significant digits and the decimal point after the \<open>n\<close>-th digit, plain notation is
  used for \<open>-6 < n \<le> 21\<close> and exponent notation otherwise. The position \<open>n\<close> is
  \<open>decimal_point\<close>: the number lies between \<open>10 ^ (n - 1)\<close> and \<open>10 ^ n\<close>.
\<close>

definition decimal_point :: "number \<Rightarrow> int" where
  "decimal_point x = int (length (digits_of (nat \<bar>mantissa x\<bar>))) + exponent x"

definition number_to_string :: "number \<Rightarrow> string" where
  "number_to_string x =
     (let m = mantissa x; e = exponent x in
      if m = 0 then ''0''
      else
        let full = digits_of (nat \<bar>m\<bar>);
            ds = strip_zeros full;
            k = int (length ds);
            n = decimal_point x;
            txt =
              (if k \<le> n \<and> n \<le> 21 then ds @ replicate (nat (n - k)) (CHR ''0'')
               else if 0 < n \<and> n \<le> 21 then take (nat n) ds @ ''.'' @ drop (nat n) ds
               else if - 6 < n \<and> n \<le> 0 then ''0.'' @ replicate (nat (- n)) (CHR ''0'') @ ds
               else (if k = 1 then ds else take 1 ds @ ''.'' @ drop 1 ds)
                    @ ''e'' @ (if n - 1 < 0 then ''-'' else ''+'')
                    @ digits_of (nat \<bar>n - 1\<bar>))
        in (if m < 0 then ''-'' else []) @ txt)"

text \<open>
  \<open>toString\<close> of express-validator, applied to a field before a standard validator sees
  it: an absent or null field is the empty string, everything else is \<open>String(value)\<close>.
\<close>

fun toString :: "jsvalue \<Rightarrow> string" where
  "toString JUndefined = []"
| "toString JNull = []"
| "toString (JBool b) = (if b then ''true'' else ''false'')"
| "toString (JNum x) = number_to_string x"
| "toString (JStr s) = s"

text \<open>
  \<open>StringToNumber\<close> of ECMAScript, which \<open>value > 0\<close> applies to a string operand:
  white space is trimmed, the empty string is 0, then a hexadecimal, octal or binary
  literal, or an optionally signed \<open>Infinity\<close> or decimal literal with an optional
  exponent part. Anything else is NaN. The decimal value is kept exactly, except that a
  value too small or too large for a double becomes zero or infinity.
\<close>

datatype numval = NaN | Infinite bool | Finite number

definition is_space :: "char \<Rightarrow> bool" where
  "is_space c = ((of_char c :: nat) \<in> set [9, 10, 11, 12, 13, 32, 160])"

definition trim :: "string \<Rightarrow> string" where
  "trim s = rev (dropWhile is_space (rev (dropWhile is_space s)))"

definition has_minus :: "string \<Rightarrow> bool" where
  "has_minus s = (case s of [] \<Rightarrow> False | c # _ \<Rightarrow> c = CHR ''-'')"

definition strip_sign :: "string \<Rightarrow> string" where
  "strip_sign s =
     (case s of [] \<Rightarrow> [] | c # r \<Rightarrow> if c = CHR ''+'' \<or> c = CHR ''-'' then r else s)"

definition all_in :: "string \<Rightarrow> string \<Rightarrow> bool" where
  "all_in alphabet s = (s \<noteq> [] \<and> list_all (\<lambda>c. c \<in> set alphabet) s)"

definition non_decimal :: "string \<Rightarrow> nat option" where
  "non_decimal s =
     (case s of
        z # p # r \<Rightarrow>
          if z \<noteq> CHR ''0'' then None
          else if p \<in> set ''xX'' \<and> all_in ''0123456789abcdefABCDEF'' r
            then Some (nat_of_digits 16 r)
          else if p \<in> set ''oO'' \<and> all_in ''01234567'' r then Some (nat_of_digits 8 r)
          else if p \<in> set ''bB'' \<and> all_in ''01'' r then Some (nat_of_digits 2 r)
          else None
      | _ \<Rightarrow> None)"

definition parse_exponent :: "string \<Rightarrow> int option" where
  "parse_exponent r =
     (case r of
        [] \<Rightarrow> Some 0
      | c # t \<Rightarrow>
          if c \<in> set ''eE'' \<and> all_in ''0123456789'' (strip_sign t)
          then Some ((if has_minus t then - 1 else 1) * int (nat_of_digits 10 (strip_sign t)))
          else None)"

definition round_double :: "nat \<Rightarrow> int \<Rightarrow> numval" where
  "round_double m e =
     (if m = 0 then Finite (Number 0 0)
      else if e < 0 \<and> int m * 2 ^ 1075 \<le> 10 ^ nat (- e) then Finite (Number 0 0)
      else if (if e < 0 then (2 ^ 1024 - 2 ^ 970) * 10 ^ nat (- e) \<le> int m
               else 2 ^ 1024 - 2 ^ 970 \<le> int m * 10 ^ nat e) then Infinite False
      else Finite (Number (int m) e))"

definition parse_unsigned_decimal :: "string \<Rightarrow> numval" where
  "parse_unsigned_decimal s =
     (if s = ''Infinity'' then Infinite False
      else
        let ip = takeWhile is_digit s;
            r1 = dropWhile is_digit s;
            dot = (r1 \<noteq> [] \<and> hd r1 = CHR ''.'');
            fp = (if dot then takeWhile is_digit (tl r1) else []);
            r2 = (if dot then dropWhile is_digit (tl r1) else r1)
        in if ip = [] \<and> fp = [] then NaN
           else case parse_exponent r2 of
                  None \<Rightarrow> NaN
                | Some e \<Rightarrow> round_double (nat_of_digits 10 (ip @ fp)) (e - int (length fp)))"

definition negate :: "bool \<Rightarrow> numval \<Rightarrow> numval" where
  "negate neg v =
     (case v of
        NaN \<Rightarrow> NaN
      | Infinite _ \<Rightarrow> Infinite neg
      | Finite x \<Rightarrow> Finite (Number (if neg then - mantissa x else mantissa x) (exponent x)))"

definition string_to_number :: "string \<Rightarrow> numval" where
  "string_to_number s =
     (let t = trim s in
      if t = [] then Finite (Number 0 0)
      else case non_decimal t of
             Some n \<Rightarrow> Finite (Number (int n) 0)
           | None \<Rightarrow> negate (has_minus t) (parse_unsigned_decimal (strip_sign t)))"

definition positive :: "number \<Rightarrow> bool" where
  "positive x = (0 < mantissa x)"

text \<open>The comparison \<open>value > 0\<close> of JavaScript, on any field value.\<close>

fun js_gt0 :: "jsvalue \<Rightarrow> bool" where
  "js_gt0 JUndefined = False"
| "js_gt0 JNull = False"
| "js_gt0 (JBool b) = b"
| "js_gt0 (JNum x) = positive x"
| "js_gt0 (JStr s) =
     (case string_to_number s of
        NaN \<Rightarrow> False
      | Infinite neg \<Rightarrow> \<not> neg
      | Finite x \<Rightarrow> positive x)"

section \<open>Validators of validator.js, as express-validator calls them\<close>

text \<open>
  The standard validators work on the string form of the field. With no options,
  \<open>isInt\<close> is the regular expression \<open>^[-+]?[0-9]+$\<close>, \<open>isNumeric\<close> is
  \<open>^[+-]?([0-9]*[.])?[0-9]+$\<close>, \<open>isEmpty\<close> tests the length, and \<open>isBoolean\<close>
  accepts the four strings true, false, 1 and 0.
\<close>

definition isInt :: "string \<Rightarrow> bool" where
  "isInt s = all_in ''0123456789'' (strip_sign s)"

definition isNumeric :: "string \<Rightarrow> bool" where
  "isNumeric s =
     (let u = strip_sign s; ip = takeWhile is_digit u; r = dropWhile is_digit u
      in if r = [] then ip \<noteq> []
         else hd r = CHR ''.'' \<and> all_in ''0123456789'' (tl r))"

definition isEmpty :: "string \<Rightarrow> bool" where
  "isEmpty s = (length s = 0)"

definition isBoolean :: "string \<Rightarrow> bool" where
  "isBoolean s = (s \<in> set [''true'', ''false'', ''1'', ''0''])"

datatype validator = IsInt | IsNumeric | NotEmpty | IsBoolean | Custom "jsvalue \<Rightarrow> bool"

fun passes :: "validator \<Rightarrow> jsvalue \<Rightarrow> bool" where
  "passes IsInt v = isInt (toString v)"
| "passes IsNumeric v = isNumeric (toString v)"
| "passes NotEmpty v = (\<not> isEmpty (toString v))"
| "passes IsBoolean v = isBoolean (toString v)"
| "passes (Custom f) v = f v"

section \<open>Requests and validation chains\<close>

datatype http_method = GET | POST | PUT | PATCH | DELETE

text \<open>
  A request to the router: the method, the path below the mount point (\<open>None\<close> for
  \<open>/\<close>, \<open>Some i\<close> for \<open>/i\<close>, which binds the route parameter \<open>id\<close>), and the body.
\<close>

record request =
  meth :: http_method
  path_id :: "string option"
  body :: body

datatype location = Body | Params

record validation_error =
  val :: jsvalue
  msg :: string
  path :: string
  location :: location

datatype chain = Chain location string "(validator \<times> string) list"

definition select :: "location \<Rightarrow> string \<Rightarrow> request \<Rightarrow> jsvalue" where
  "select l k req =
     (case l of
        Body \<Rightarrow> field (body req) k
      | Params \<Rightarrow>
          (case path_id req of
             Some i \<Rightarrow> if k = ''id'' then JStr i else JUndefined
           | None \<Rightarrow> JUndefined))"

text \<open>
  Running a chain: every validator of the chain is applied to the field, in order and
  without stopping at a failure; each failure adds one error with the message that
  follows the validator.
\<close>

fun run_chain :: "chain \<Rightarrow> request \<Rightarrow> validation_error list" where
  "run_chain (Chain l k rules) req =
     map (\<lambda>r. \<lparr>val = select l k req, msg = snd r, path = k, location = l\<rparr>)
       (filter (\<lambda>r. \<not> passes (fst r) (select l k req)) rules)"

subsection \<open>The chains of router.ts\<close>

text \<open>
  The messages are those of \<open>withMessage\<close> in router.ts; the accented letter in
  the word \<open>valido\<close> is the code unit 0xE1.
\<close>

definition valido :: string where
  "valido = ''v'' @ [CHR 0xE1] @ ''lido''"

definition id_invalid :: string where
  "id_invalid = ''ID no '' @ valido"

definition name_empty :: string where
  "name_empty = ''El nombre del producto no puede ir vacio''"

definition price_not_numeric :: string where
  "price_not_numeric = ''Valor no '' @ valido"

definition price_empty :: string where
  "price_empty = ''El precio del producto no puede ir vacio''"

definition price_not_positive :: string where
  "price_not_positive = ''Precio no '' @ valido"

definition availability_invalid :: string where
  "availability_invalid = ''Valor para disponibilidad no '' @ valido"

text \<open>The error records that the chains below produce.\<close>

definition id_error :: "string \<Rightarrow> validation_error" where
  "id_error i = \<lparr>val = JStr i, msg = id_invalid, path = ''id'', location = Params\<rparr>"

definition body_error :: "string \<Rightarrow> jsvalue \<Rightarrow> string \<Rightarrow> validation_error" where
  "body_error k v m = \<lparr>val = v, msg = m, path = k, location = Body\<rparr>"

definition param_id :: chain where
  "param_id = Chain Params ''id'' [(IsInt, id_invalid)]"

definition body_name :: chain where
  "body_name = Chain Body ''name'' [(NotEmpty, name_empty)]"

definition body_price :: chain where
  "body_price =
     Chain Body ''price''
       [(IsNumeric, price_not_numeric),
        (NotEmpty, price_empty),
        (Custom (\<lambda>value. js_gt0 value), price_not_positive)]"

definition body_availability :: chain where
  "body_availability = Chain Body ''availability'' [(IsBoolean, availability_invalid)]"

section \<open>The product store\<close>

text \<open>
  Modelled from the spec: the product entity of section 3 (the model class of
  src/models is missing): an integer id, a name, a numeric price, a boolean
  availability.
\<close>

record product =
  pid :: int
  name :: string
  price :: number
  availability :: bool

text \<open>
  Modelled from the spec: the product table of section 2 (the model class of src/models
  is missing). Rows are kept in insertion order; \<open>next_id\<close> is the auto-increment
  counter of the primary key.
\<close>

record store =
  rows :: "product list"
  next_id :: int

text \<open>Modelled from the spec: the table before any request, the counter at 1.\<close>

definition empty_store :: store where
  "empty_store = \<lparr>rows = [], next_id = 1\<rparr>"

text \<open>Modelled from the spec: lookup by primary key (sections 2 and 4.3).\<close>

definition findByPk :: "int \<Rightarrow> store \<Rightarrow> product option" where
  "findByPk i s = find (\<lambda>p. pid p = i) (rows s)"

text \<open>
  Modelled from the spec: creation assigns the next id and sets the availability to
  true (sections 3 and 4.4).
\<close>

definition insert_row :: "string \<Rightarrow> number \<Rightarrow> store \<Rightarrow> product \<times> store" where
  "insert_row n pr s =
     (let p = \<lparr>pid = next_id s, name = n, price = pr, availability = True\<rparr>
      in (p, \<lparr>rows = rows s @ [p], next_id = next_id s + 1\<rparr>))"

text \<open>
  Modelled from the spec: a record is persisted in place, under its primary key
  (sections 4.5 and 4.6).
\<close>

definition save_row :: "product \<Rightarrow> store \<Rightarrow> store" where
  "save_row p s = s\<lparr>rows := map (\<lambda>q. if pid q = pid p then p else q) (rows s)\<rparr>"

text \<open>Modelled from the spec: a hard delete, with no tombstone (sections 3 and 4.7).\<close>

definition destroy_row :: "int \<Rightarrow> store \<Rightarrow> store" where
  "destroy_row i s = s\<lparr>rows := filter (\<lambda>q. pid q \<noteq> i) (rows s)\<rparr>"

section \<open>Responses\<close>

datatype reply =
    Data_products "product list"
  | Data_product product
  | Data_text string
  | Errors "validation_error list"
  | Error string
  | Not_routed
  | Server_error

record response =
  status :: nat
  reply :: reply

text \<open>Modelled from the spec: the answers for an absent id (404, section 6) and for a
  failure of the store (section 7).\<close>

definition not_found :: response where
  "not_found = \<lparr>status = 404, reply = Error ''Producto no encontrado''\<rparr>"

definition server_error :: response where
  "server_error = \<lparr>status = 500, reply = Server_error\<rparr>"

section \<open>The router\<close>

datatype handler =
    GetProducts | GetProductById | CreateProduct | UpdateProduct | UpdateAvailability
  | DeleteProduct

datatype middleware = Validate chain | HandleInputErrors | Handler handler

text \<open>
  The routes of router.ts, each the list of its middlewares in the order written there.
  A method and path with no route gives the empty list.
\<close>

definition router :: "http_method \<Rightarrow> string option \<Rightarrow> middleware list" where
  "router m p =
     (case (m, p) of
        (GET, None) \<Rightarrow> [Handler GetProducts]
      | (GET, Some _) \<Rightarrow> [Validate param_id, HandleInputErrors, Handler GetProductById]
      | (POST, None) \<Rightarrow>
          [Validate body_name, Validate body_price, HandleInputErrors, Handler CreateProduct]
      | (PUT, Some _) \<Rightarrow>
          [Validate param_id, Validate body_name, Validate body_price,
           Validate body_availability, HandleInputErrors, Handler UpdateProduct]
      | (PATCH, Some _) \<Rightarrow>
          [Validate param_id, HandleInputErrors, Handler UpdateAvailability]
      | (DELETE, Some _) \<Rightarrow> [Validate param_id, HandleInputErrors, Handler DeleteProduct]
      | _ \<Rightarrow> [])"

type_synonym handler_impl = "handler \<Rightarrow> request \<Rightarrow> store \<Rightarrow> response \<times> store"

text \<open>
  Modelled from the spec: \<open>handleInputErrors\<close> of src/middleware, whose source is
  missing (sections 4.1, 6 and 7). With errors collected it answers 400 with their list,
  and no later middleware runs; with none it passes the request on (\<open>None\<close>).
\<close>

definition handleInputErrors :: "validation_error list \<Rightarrow> response option" where
  "handleInputErrors errs =
     (if errs \<noteq> [] then Some \<lparr>status = 400, reply = Errors errs\<rparr> else None)"

text \<open>
  Running the middlewares of a route, in order. A validation chain adds its errors to
  those the request has collected so far. The handlers are a parameter \<open>impl\<close>; a
  route that ends without an answer is a 404 of the framework.
\<close>

fun run :: "handler_impl \<Rightarrow> middleware list \<Rightarrow> request \<Rightarrow> validation_error list \<Rightarrow> store
    \<Rightarrow> response \<times> store" where
  "run impl [] req errs s = (\<lparr>status = 404, reply = Not_routed\<rparr>, s)"
| "run impl (Validate c # ms) req errs s = run impl ms req (errs @ run_chain c req) s"
| "run impl (HandleInputErrors # ms) req errs s =
     (case handleInputErrors errs of
        Some r \<Rightarrow> (r, s)
      | None \<Rightarrow> run impl ms req errs s)"
| "run impl (Handler h # ms) req errs s = impl h req s"

definition serve :: "handler_impl \<Rightarrow> request \<Rightarrow> store \<Rightarrow> response \<times> store" where
  "serve impl req s = run impl (router (meth req) (path_id req)) req [] s"

section \<open>The handlers\<close>

text \<open>
  Modelled from the spec: what the typed columns of the table (integer id, numeric
  price, boolean availability; section 2) accept from a request. The id of the path is
  read as a signed decimal integer.
\<close>

definition parse_id :: "string \<Rightarrow> int option" where
  "parse_id i =
     (if isInt i
      then Some ((if has_minus i then - 1 else 1) * int (nat_of_digits 10 (strip_sign i)))
      else None)"

text \<open>Modelled from the spec: the numeric column takes a number or a string that is one.\<close>

fun to_number :: "jsvalue \<Rightarrow> number option" where
  "to_number (JNum x) = Some x"
| "to_number (JStr s) = (case string_to_number s of Finite x \<Rightarrow> Some x | _ \<Rightarrow> None)"
| "to_number _ = None"

text \<open>
  Modelled from the spec: the boolean column takes the values that the rule on the
  availability accepts.
\<close>

definition to_boolean :: "jsvalue \<Rightarrow> bool option" where
  "to_boolean v =
     (if toString v \<in> set [''true'', ''1''] then Some True
      else if toString v \<in> set [''false'', ''0''] then Some False
      else None)"

text \<open>
  Modelled from the spec: the lookup that get, replace, toggle and delete start with;
  an id absent from the store is the not-found condition of section 7.
\<close>

definition find_target :: "request \<Rightarrow> store \<Rightarrow> response + product" where
  "find_target req s =
     (case path_id req of
        None \<Rightarrow> Inl not_found
      | Some i \<Rightarrow>
          (case parse_id i of
             None \<Rightarrow> Inl server_error
           | Some k \<Rightarrow>
               (case findByPk k s of None \<Rightarrow> Inl not_found | Some p \<Rightarrow> Inr p)))"

text \<open>
  The six handlers of src/handlers/product.ts, whose source is missing, follow sections
  4.2 to 4.7 and 6 of the specification. A value that a typed column cannot take is a
  failure of the store: status 500, nothing written.
\<close>

text \<open>Modelled from the spec: list products (4.2), every stored product, always 200.\<close>

definition getProducts :: "request \<Rightarrow> store \<Rightarrow> response \<times> store" where
  "getProducts req s = (\<lparr>status = 200, reply = Data_products (rows s)\<rparr>, s)"

text \<open>Modelled from the spec: get product by id (4.3), 404 when absent.\<close>

definition getProductById :: "request \<Rightarrow> store \<Rightarrow> response \<times> store" where
  "getProductById req s =
     (case find_target req s of
        Inl r \<Rightarrow> (r, s)
      | Inr p \<Rightarrow> (\<lparr>status = 200, reply = Data_product p\<rparr>, s))"

text \<open>
  Modelled from the spec: create product (4.4), a new id, availability true, answer 201
  with the new record.
\<close>

definition createProduct :: "request \<Rightarrow> store \<Rightarrow> response \<times> store" where
  "createProduct req s =
     (case to_number (field (body req) ''price'') of
        None \<Rightarrow> (server_error, s)
      | Some pr \<Rightarrow>
          (let (p, s') = insert_row (toString (field (body req) ''name'')) pr s
           in (\<lparr>status = 201, reply = Data_product p\<rparr>, s')))"

text \<open>
  Modelled from the spec: replace product (4.5), not-found checked before the write,
  then name, price and availability overwritten, the id kept.
\<close>

definition updateProduct :: "request \<Rightarrow> store \<Rightarrow> response \<times> store" where
  "updateProduct req s =
     (case find_target req s of
        Inl r \<Rightarrow> (r, s)
      | Inr p \<Rightarrow>
          (case (to_number (field (body req) ''price''),
                 to_boolean (field (body req) ''availability'')) of
             (Some pr, Some a) \<Rightarrow>
               (let p' = p\<lparr>name := toString (field (body req) ''name''), price := pr,
                            availability := a\<rparr>
                in (\<lparr>status = 200, reply = Data_product p'\<rparr>, save_row p' s))
           | _ \<Rightarrow> (server_error, s)))"

text \<open>
  Modelled from the spec: toggle availability (4.6), the body ignored, the availability
  replaced by its complement.
\<close>

definition updateAvailability :: "request \<Rightarrow> store \<Rightarrow> response \<times> store" where
  "updateAvailability req s =
     (case find_target req s of
        Inl r \<Rightarrow> (r, s)
      | Inr p \<Rightarrow>
          (let p' = p\<lparr>availability := \<not> availability p\<rparr>
           in (\<lparr>status = 200, reply = Data_product p'\<rparr>, save_row p' s)))"

text \<open>
  Modelled from the spec: delete product (4.7), the record removed, a confirmation
  returned.
\<close>

definition deleteProduct :: "request \<Rightarrow> store \<Rightarrow> response \<times> store" where
  "deleteProduct req s =
     (case find_target req s of
        Inl r \<Rightarrow> (r, s)
      | Inr p \<Rightarrow> (\<lparr>status = 200, reply = Data_text ''Producto Eliminado''\<rparr>,
                  destroy_row (pid p) s))"

fun handlers :: handler_impl where
  "handlers GetProducts = getProducts"
| "handlers GetProductById = getProductById"
| "handlers CreateProduct = createProduct"
| "handlers UpdateProduct = updateProduct"
| "handlers UpdateAvailability = updateAvailability"
| "handlers DeleteProduct = deleteProduct"

definition api :: "request \<Rightarrow> store \<Rightarrow> response \<times> store" where
  "api req s = serve handlers req s"

text \<open>A sequence of requests, served one after the other.\<close>

fun api_all :: "request list \<Rightarrow> store \<Rightarrow> store" where
  "api_all [] s = s"
| "api_all (req # reqs) s = api_all reqs (snd (api req s))"

text \<open>The decimal numeral of an integer, as a client writes it into the path.\<close>

definition decimal_of_int :: "int \<Rightarrow> string" where
  "decimal_of_int n = (if n < 0 then ''-'' else []) @ digits_of (nat \<bar>n\<bar>)"

text \<open>
  The table is well formed when the primary key is unique and below the counter, and
  every price is positive.
\<close>

definition wf_store :: "store \<Rightarrow> bool" where
  "wf_store s =
     (distinct (map pid (rows s)) \<and>
      list_all (\<lambda>p. pid p < next_id s \<and> positive (price p)) (rows s))"

subsection \<open>Example data\<close>

definition mouse_body :: body where
  "mouse_body = [''name'' \<mapsto> JStr ''Mouse - Testing'', ''price'' \<mapsto> JNum (Number 50 0)]"

definition create_mouse :: request where
  "create_mouse = \<lparr>meth = POST, path_id = None, body = mouse_body\<rparr>"

definition mouse :: product where
  "mouse = \<lparr>pid = 1, name = ''Mouse - Testing'', price = Number 50 0, availability = True\<rparr>"

definition one_mouse :: store where
  "one_mouse = \<lparr>rows = [mouse], next_id = 2\<rparr>"



section \<open>Running the routes\<close>

lemma run_param_id:
  "path_id req = Some i \<Longrightarrow> run_chain param_id req = (if isInt i then [] else [id_error i])"
  by (simp add: param_id_def select_def id_error_def)

lemma run_body_name:
  "run_chain body_name req =
     (if isEmpty (toString (field (body req) ''name''))
      then [body_error ''name'' (field (body req) ''name'') name_empty] else [])"
  by (simp add: body_name_def select_def body_error_def)

lemma run_body_price:
  "run_chain body_price req =
     (if isNumeric (toString (field (body req) ''price'')) then []
      else [body_error ''price'' (field (body req) ''price'') price_not_numeric])
     @ (if isEmpty (toString (field (body req) ''price''))
        then [body_error ''price'' (field (body req) ''price'') price_empty] else [])
     @ (if js_gt0 (field (body req) ''price'') then []
        else [body_error ''price'' (field (body req) ''price'') price_not_positive])"
  by (simp add: body_price_def select_def body_error_def)

lemma run_body_availability:
  "run_chain body_availability req =
     (if isBoolean (toString (field (body req) ''availability'')) then []
      else [body_error ''availability'' (field (body req) ''availability'')
              availability_invalid])"
  by (simp add: body_availability_def select_def body_error_def)

lemma serve_get:
  "serve impl \<lparr>meth = GET, path_id = Some i, body = b\<rparr> s =
     (if isInt i then impl GetProductById \<lparr>meth = GET, path_id = Some i, body = b\<rparr> s
      else (\<lparr>status = 400, reply = Errors [id_error i]\<rparr>, s))"
  by (simp add: serve_def router_def run_param_id handleInputErrors_def)

lemma serve_patch:
  "serve impl \<lparr>meth = PATCH, path_id = Some i, body = b\<rparr> s =
     (if isInt i
      then impl UpdateAvailability \<lparr>meth = PATCH, path_id = Some i, body = b\<rparr> s
      else (\<lparr>status = 400, reply = Errors [id_error i]\<rparr>, s))"
  by (simp add: serve_def router_def run_param_id handleInputErrors_def)

lemma serve_delete:
  "serve impl \<lparr>meth = DELETE, path_id = Some i, body = b\<rparr> s =
     (if isInt i then impl DeleteProduct \<lparr>meth = DELETE, path_id = Some i, body = b\<rparr> s
      else (\<lparr>status = 400, reply = Errors [id_error i]\<rparr>, s))"
  by (simp add: serve_def router_def run_param_id handleInputErrors_def)

lemma serve_post:
  "serve impl \<lparr>meth = POST, path_id = None, body = b\<rparr> s =
     (if run_chain body_name \<lparr>meth = POST, path_id = None, body = b\<rparr>
           @ run_chain body_price \<lparr>meth = POST, path_id = None, body = b\<rparr> = []
      then impl CreateProduct \<lparr>meth = POST, path_id = None, body = b\<rparr> s
      else (\<lparr>status = 400,
             reply = Errors
               (run_chain body_name \<lparr>meth = POST, path_id = None, body = b\<rparr>
                @ run_chain body_price \<lparr>meth = POST, path_id = None, body = b\<rparr>)\<rparr>,
            s))"
  by (simp add: serve_def router_def handleInputErrors_def)

lemma serve_put:
  "serve impl \<lparr>meth = PUT, path_id = Some i, body = b\<rparr> s =
     (if run_chain param_id \<lparr>meth = PUT, path_id = Some i, body = b\<rparr>
           @ run_chain body_name \<lparr>meth = PUT, path_id = Some i, body = b\<rparr>
           @ run_chain body_price \<lparr>meth = PUT, path_id = Some i, body = b\<rparr>
           @ run_chain body_availability \<lparr>meth = PUT, path_id = Some i, body = b\<rparr> = []
      then impl UpdateProduct \<lparr>meth = PUT, path_id = Some i, body = b\<rparr> s
      else (\<lparr>status = 400,
             reply = Errors
               (run_chain param_id \<lparr>meth = PUT, path_id = Some i, body = b\<rparr>
                @ run_chain body_name \<lparr>meth = PUT, path_id = Some i, body = b\<rparr>
                @ run_chain body_price \<lparr>meth = PUT, path_id = Some i, body = b\<rparr>
                @ run_chain body_availability
                    \<lparr>meth = PUT, path_id = Some i, body = b\<rparr>)\<rparr>,
            s))"
  by (simp add: serve_def router_def handleInputErrors_def)

lemma absent_field: "field Map.empty k = JUndefined"
  by (simp add: field_def)

lemma isNumeric_Nil: "\<not> isNumeric []"
  by (simp add: isNumeric_def strip_sign_def)

lemma isBoolean_Nil: "\<not> isBoolean []"
  by (simp add: isBoolean_def)

lemma isInt_1: "isInt ''1''"
  by (simp add: isInt_def strip_sign_def all_in_def)

section \<open>Validation of an empty body\<close>

text \<open>
  C6. A create request with an empty body is answered 400 with exactly four errors, in
  the order in which the rules are declared: name empty, price not numeric, price
  empty, price not positive. The answer is the same whatever the handlers do, and the
  store is left as it was: the create handler does not run.
\<close>

theorem create_empty_body_four_errors:
  "serve impl \<lparr>meth = POST, path_id = None, body = Map.empty\<rparr> s =
     (\<lparr>status = 400,
       reply = Errors
         [body_error ''name'' JUndefined name_empty,
          body_error ''price'' JUndefined price_not_numeric,
          body_error ''price'' JUndefined price_empty,
          body_error ''price'' JUndefined price_not_positive]\<rparr>, s)"
  by (simp add: serve_post run_body_name run_body_price absent_field isEmpty_def isNumeric_Nil)

theorem create_empty_body_four_errors_witness:
  "fst (api \<lparr>meth = POST, path_id = None, body = Map.empty\<rparr> empty_store) =
     \<lparr>status = 400,
      reply = Errors
        [body_error ''name'' JUndefined name_empty,
         body_error ''price'' JUndefined price_not_numeric,
         body_error ''price'' JUndefined price_empty,
         body_error ''price'' JUndefined price_not_positive]\<rparr>"
  using create_empty_body_four_errors [of handlers empty_store] by (simp add: api_def)

text \<open>
  C8. A replace request (PUT) with an integer id and an empty body is answered 400 with
  exactly five errors: one for the name, three for the price, one for the availability.
  The answer is the same whatever the handlers do, and the store is left as it was.
\<close>

theorem replace_empty_body_five_errors:
  "isInt i \<Longrightarrow>
   serve impl \<lparr>meth = PUT, path_id = Some i, body = Map.empty\<rparr> s =
     (\<lparr>status = 400,
       reply = Errors
         [body_error ''name'' JUndefined name_empty,
          body_error ''price'' JUndefined price_not_numeric,
          body_error ''price'' JUndefined price_empty,
          body_error ''price'' JUndefined price_not_positive,
          body_error ''availability'' JUndefined availability_invalid]\<rparr>, s)"
  by (simp add: serve_put run_param_id run_body_name run_body_price run_body_availability
      absent_field isEmpty_def isNumeric_Nil isBoolean_Nil)

theorem replace_empty_body_five_errors_witness:
  "isInt ''1'' \<and>
   fst (api \<lparr>meth = PUT, path_id = Some ''1'', body = Map.empty\<rparr> empty_store) =
     \<lparr>status = 400,
      reply = Errors
         [body_error ''name'' JUndefined name_empty,
          body_error ''price'' JUndefined price_not_numeric,
          body_error ''price'' JUndefined price_empty,
          body_error ''price'' JUndefined price_not_positive,
          body_error ''availability'' JUndefined availability_invalid]\<rparr>"
  using replace_empty_body_five_errors [OF isInt_1, of handlers empty_store] isInt_1
  by (simp add: api_def)

section \<open>The store under the requests\<close>

lemma findByPk_Some: "findByPk k s = Some p \<Longrightarrow> pid p = k \<and> p \<in> set (rows s)"
  unfolding findByPk_def by (induction "rows s" arbitrary: s) (auto simp: find_Some_iff)

lemma findByPk_None: "findByPk k s = None \<longleftrightarrow> k \<notin> pid ` set (rows s)"
  unfolding findByPk_def by (auto simp: find_None_iff)

lemma find_map_replace:
  "find (\<lambda>p. pid p = k) xs = Some p \<Longrightarrow> pid p' = k \<Longrightarrow>
   find (\<lambda>p. pid p = k) (map (\<lambda>q. if pid q = k then p' else q) xs) = Some p'"
  by (induction xs) (auto split: if_splits)

lemma findByPk_save_row:
  "findByPk k s = Some p \<Longrightarrow> pid p' = k \<Longrightarrow> findByPk k (save_row p' s) = Some p'"
  by (simp add: findByPk_def save_row_def find_map_replace)

lemma pids_save_row: "map pid (rows (save_row p s)) = map pid (rows s)"
  by (simp add: save_row_def comp_def)

lemma map_replace_twice:
  "distinct (map pid xs) \<Longrightarrow> p \<in> set xs \<Longrightarrow> pid p' = pid p \<Longrightarrow>
   map (\<lambda>q. if pid q = pid p then p else q) (map (\<lambda>q. if pid q = pid p then p' else q) xs) = xs"
proof (induction xs)
  case Nil
  then show ?case by simp
next
  case (Cons x xs)
  show ?case
  proof (cases "x = p")
    case True
    with Cons.prems have "\<forall>q\<in>set xs. pid q \<noteq> pid p" by (auto simp: image_iff)
    then have "map (\<lambda>q. if pid q = pid p then p else q)
        (map (\<lambda>q. if pid q = pid p then p' else q) xs) = xs"
      by (simp add: map_idI)
    with True Cons.prems(3) show ?thesis by simp
  next
    case False
    with Cons.prems have "p \<in> set xs" and "pid x \<noteq> pid p" and "distinct (map pid xs)"
      by (auto simp: image_iff)
    with Cons.IH Cons.prems show ?thesis by simp
  qed
qed

lemma save_row_twice:
  "distinct (map pid (rows s)) \<Longrightarrow> findByPk k s = Some p \<Longrightarrow> pid p' = k \<Longrightarrow>
   save_row p (save_row p' s) = s"
  using findByPk_Some [of k s p] map_replace_twice [of "rows s" p p']
  by (simp add: save_row_def)

lemma findByPk_destroy_row: "findByPk k (destroy_row k s) = None"
  by (auto simp: findByPk_None destroy_row_def)


lemma parse_id_isInt: "parse_id i = Some k \<Longrightarrow> isInt i"
  by (simp add: parse_id_def split: if_splits)

lemma find_target_eq:
  "path_id req = Some i \<Longrightarrow> parse_id i = Some k \<Longrightarrow>
   find_target req s = (case findByPk k s of None \<Rightarrow> Inl not_found | Some p \<Rightarrow> Inr p)"
  by (simp add: find_target_def)

lemma js_gt0_to_number: "js_gt0 v \<Longrightarrow> to_number v = Some x \<Longrightarrow> positive x"
  by (cases v) (auto split: numval.splits)

lemma no_price_errors:
  "run_chain body_price req = [] \<Longrightarrow> js_gt0 (field (body req) ''price'')"
  by (simp add: run_body_price split: if_splits)

text \<open>Every request leaves the store as it was, or does exactly one write.\<close>

lemma api_step:
  "snd (api req s) = s
   \<or> (\<exists>p q. snd (api req s) = save_row p s \<and> findByPk (pid p) s = Some q
         \<and> (meth req = PATCH \<and> price p = price q \<or> meth req = PUT \<and> positive (price p)))
   \<or> (\<exists>k. meth req = DELETE \<and> snd (api req s) = destroy_row k s)
   \<or> (\<exists>n x. meth req = POST \<and> positive x \<and> snd (api req s) = snd (insert_row n x s))"
proof (cases req)
  case (fields m pth b)
  show ?thesis
  proof (cases pth)
    case None
    show ?thesis
    proof (cases m)
      case POST
      show ?thesis
      proof (cases "to_number (field b ''price'')")
        case None
        with fields POST \<open>pth = None\<close> show ?thesis
          by (simp add: api_def serve_post createProduct_def)
      next
        case (Some x)
        show ?thesis
        proof (cases "run_chain body_name req @ run_chain body_price req = []")
          case True
          then have "js_gt0 (field (body req) ''price'')"
            by (simp add: no_price_errors)
          with Some fields have "positive x"
            by (simp add: js_gt0_to_number)
          have "snd (api req s) = snd (insert_row (toString (field b ''name'')) x s)"
            using True Some fields POST \<open>pth = None\<close>
            by (simp add: api_def serve_post createProduct_def split: prod.splits)
          with \<open>positive x\<close> fields POST show ?thesis by auto
        next
          case False
          with fields POST \<open>pth = None\<close> have "snd (api req s) = s"
            by (auto simp: api_def serve_post)
          then show ?thesis by blast
        qed
      qed
    qed (use fields None in \<open>simp_all add: api_def serve_def router_def getProducts_def\<close>)
  next
    case (Some i)
    show ?thesis
    proof (cases "parse_id i")
      case None
      then have ft: "find_target req s = Inl server_error"
        using fields Some by (simp add: find_target_def)
      show ?thesis
        using fields Some ft
        by (cases m)
           (simp_all add: api_def serve_get serve_put serve_patch serve_delete
              getProductById_def updateProduct_def updateAvailability_def deleteProduct_def,
            simp_all add: serve_def router_def)
    next
      case (Some k)
      note pk = this
      show ?thesis
      proof (cases "findByPk k s")
        case None
        then have ft: "find_target req s = Inl not_found"
          using fields \<open>pth = Some i\<close> pk by (simp add: find_target_eq)
        show ?thesis
          using fields \<open>pth = Some i\<close> ft
          by (cases m)
             (simp_all add: api_def serve_get serve_put serve_patch serve_delete
              getProductById_def updateProduct_def updateAvailability_def deleteProduct_def,
              simp_all add: serve_def router_def)
      next
        case (Some q)
        then have ft: "find_target req s = Inr q"
          using fields \<open>pth = Some i\<close> pk by (simp add: find_target_eq)
        have pq: "pid q = k" using Some findByPk_Some by blast
        show ?thesis
        proof (cases m)
          case GET
          with fields \<open>pth = Some i\<close> ft show ?thesis
            by (simp add: api_def serve_get getProductById_def)
        next
          case POST
          with fields \<open>pth = Some i\<close> show ?thesis
            by (simp add: api_def serve_def router_def)
        next
          case PUT
          show ?thesis
          proof (cases "run_chain param_id req @ run_chain body_name req
                        @ run_chain body_price req @ run_chain body_availability req = []")
            case False
            with fields PUT \<open>pth = Some i\<close> have "snd (api req s) = s"
              by (auto simp: api_def serve_put)
            then show ?thesis by blast
          next
            case True
            then have gt: "js_gt0 (field (body req) ''price'')"
              by (simp add: no_price_errors)
            show ?thesis
            proof (cases "to_number (field b ''price'')")
              case None
              with True fields PUT \<open>pth = Some i\<close> ft show ?thesis
                by (simp add: api_def serve_put updateProduct_def Let_def)
            next
              case (Some x)
              with gt fields have px: "positive x"
                by (simp add: js_gt0_to_number)
              show ?thesis
              proof (cases "to_boolean (field b ''availability'')")
                case None
                with True Some fields PUT \<open>pth = Some i\<close> ft show ?thesis
                  by (simp add: api_def serve_put updateProduct_def Let_def)
              next
                case (Some a)
                let ?p = "q\<lparr>name := toString (field b ''name''), price := x, availability := a\<rparr>"
                have "snd (api req s) = save_row ?p s"
                  using True Some \<open>to_number (field b ''price'') = Some x\<close> fields PUT
                    \<open>pth = Some i\<close> ft
                  by (simp add: api_def serve_put updateProduct_def Let_def)
                moreover have "findByPk (pid ?p) s = Some q"
                  using \<open>findByPk k s = Some q\<close> pq by simp
                moreover have "meth req = PUT \<and> positive (price ?p)"
                  using px fields PUT by simp
                ultimately show ?thesis by blast
              qed
            qed
          qed
        next
          case PATCH
          let ?p = "q\<lparr>availability := \<not> availability q\<rparr>"
          have "snd (api req s) = save_row ?p s"
            using fields PATCH \<open>pth = Some i\<close> ft parse_id_isInt [OF pk]
            by (simp add: api_def serve_patch updateAvailability_def Let_def)
          moreover have "findByPk (pid ?p) s = Some q"
            using \<open>findByPk k s = Some q\<close> pq by simp
          moreover have "meth req = PATCH \<and> price ?p = price q"
            using fields PATCH by simp
          ultimately show ?thesis by blast
        next
          case DELETE
          with fields \<open>pth = Some i\<close> ft parse_id_isInt [OF pk] show ?thesis
            by (auto simp: api_def serve_delete deleteProduct_def)
        qed
      qed
    qed
  qed
qed


lemma wf_save_row:
  assumes "wf_store s" and "findByPk (pid p) s = Some q"
    and "price p = price q \<or> positive (price p)"
  shows "wf_store (save_row p s)"
proof -
  from assms(2) have q: "q \<in> set (rows s)" and pq: "pid q = pid p"
    using findByPk_Some by blast+
  from assms(1) q have "pid q < next_id s" and "positive (price q)"
    by (auto simp: wf_store_def list_all_iff)
  with pq assms(3) have "pid p < next_id s \<and> positive (price p)" by auto
  with assms(1) have "list_all (\<lambda>r. pid r < next_id (save_row p s) \<and> positive (price r))
      (rows (save_row p s))"
    by (auto simp: wf_store_def list_all_iff save_row_def)
  moreover from assms(1) have "distinct (map pid (rows (save_row p s)))"
    by (simp add: pids_save_row wf_store_def)
  ultimately show ?thesis by (simp add: wf_store_def)
qed

lemma wf_destroy_row: "wf_store s \<Longrightarrow> wf_store (destroy_row k s)"
  by (auto simp: wf_store_def list_all_iff destroy_row_def distinct_map_filter)

lemma wf_insert_row: "wf_store s \<Longrightarrow> positive x \<Longrightarrow> wf_store (snd (insert_row n x s))"
  by (fastforce simp: wf_store_def list_all_iff insert_row_def Let_def)

lemma wf_api: "wf_store s \<Longrightarrow> wf_store (snd (api req s))"
  using api_step [of req s] wf_save_row wf_destroy_row wf_insert_row by metis

lemma wf_api_all: "wf_store s \<Longrightarrow> wf_store (api_all reqs s)"
  by (induction reqs arbitrary: s) (simp_all add: wf_api)

lemma wf_empty_store: "wf_store empty_store"
  by (simp add: wf_store_def empty_store_def)

lemma pids_api:
  "map pid (rows (snd (api req s))) = map pid (rows s) \<and> next_id (snd (api req s)) = next_id s
   \<or> (\<exists>k. map pid (rows (snd (api req s))) = filter (\<lambda>j. j \<noteq> k) (map pid (rows s)))
      \<and> next_id (snd (api req s)) = next_id s
   \<or> map pid (rows (snd (api req s))) = map pid (rows s) @ [next_id s]
      \<and> next_id (snd (api req s)) = next_id s + 1"
proof -
  have a: "map pid (rows (save_row p s)) = map pid (rows s) \<and> next_id (save_row p s) = next_id s"
    for p by (simp add: save_row_def comp_def)
  have b: "map pid (rows (destroy_row k s)) = filter (\<lambda>j. j \<noteq> k) (map pid (rows s))
           \<and> next_id (destroy_row k s) = next_id s"
    for k by (simp add: destroy_row_def filter_map comp_def)
  have c: "map pid (rows (snd (insert_row n x s))) = map pid (rows s) @ [next_id s]
           \<and> next_id (snd (insert_row n x s)) = next_id s + 1"
    for n x by (simp add: insert_row_def Let_def)
  from api_step [of req s] show ?thesis
    using a b c by (elim disjE exE conjE) (simp_all, blast)
qed

lemma prices_api:
  assumes "meth req \<noteq> POST" and "meth req \<noteq> PUT" and "p' \<in> set (rows (snd (api req s)))"
  shows "\<exists>p\<in>set (rows s). pid p = pid p' \<and> price p = price p'"
proof -
  from api_step [of req s] assms(1,2) consider
      "snd (api req s) = s"
    | p q where "snd (api req s) = save_row p s" "findByPk (pid p) s = Some q"
        "price p = price q"
    | k where "snd (api req s) = destroy_row k s"
    by auto
  then show ?thesis
  proof cases
    case 1
    with assms(3) show ?thesis by auto
  next
    case 2
    from 2(2) have "q \<in> set (rows s)" "pid q = pid p" using findByPk_Some by blast+
    with 2 assms(3) show ?thesis
      by (auto simp: save_row_def split: if_splits)
  next
    case 3
    with assms(3) show ?thesis by (auto simp: destroy_row_def)
  qed
qed

section \<open>Invariants of the store\<close>

lemma api_all_append: "api_all (xs @ ys) s = api_all ys (api_all xs s)"
  by (induction xs arbitrary: s) simp_all

lemma next_id_api: "next_id s \<le> next_id (snd (api req s))"
  using pids_api [of req s] by auto

lemma next_id_api_all: "next_id s \<le> next_id (api_all reqs s)"
proof (induction reqs arbitrary: s)
  case Nil
  then show ?case by simp
next
  case (Cons req reqs)
  from next_id_api [of s req] Cons [of "snd (api req s)"] show ?case by simp
qed

text \<open>
  C1. Take any sequence of requests from the empty store, in two parts, and call
  \<open>earlier\<close> the store after the first part and \<open>s\<close> the store after both. In
  \<open>s\<close> every product has a price above zero and the ids are distinct. Every product
  of \<open>earlier\<close>, deleted since or not, has an id below the counter of \<open>s\<close>, and
  the counter never decreases. One more request keeps the list of ids, or removes one
  id from it, or appends the counter's value: an id is never changed and never given a
  second time. A toggle (PATCH) or a delete leaves every remaining product with the id
  and the price it had.
\<close>

theorem store_invariants:
  "let earlier = api_all before empty_store;
       s = api_all after earlier;
       s' = snd (api req s) in
     list_all (\<lambda>p. positive (price p)) (rows s)
     \<and> distinct (map pid (rows s))
     \<and> list_all (\<lambda>p. pid p < next_id s) (rows earlier)
     \<and> next_id s \<le> next_id s'
     \<and> (map pid (rows s') = map pid (rows s)
        \<or> (\<exists>k. map pid (rows s') = filter (\<lambda>j. j \<noteq> k) (map pid (rows s)))
        \<or> map pid (rows s') = map pid (rows s) @ [next_id s])
     \<and> (meth req = PATCH \<or> meth req = DELETE \<longrightarrow>
          list_all (\<lambda>p'. \<exists>p\<in>set (rows s). pid p = pid p' \<and> price p = price p') (rows s'))"
proof -
  define earlier where "earlier = api_all before empty_store"
  define s where "s = api_all after earlier"
  have wf_earlier: "wf_store earlier"
    unfolding earlier_def by (rule wf_api_all [OF wf_empty_store])
  then have wf: "wf_store s"
    unfolding s_def by (rule wf_api_all)
  have 1: "list_all (\<lambda>p. positive (price p)) (rows s)"
    and 2: "distinct (map pid (rows s))"
    using wf by (auto simp: wf_store_def list_all_iff)
  have "next_id earlier \<le> next_id s"
    unfolding s_def by (rule next_id_api_all)
  with wf_earlier have 3: "list_all (\<lambda>p. pid p < next_id s) (rows earlier)"
    by (auto simp: wf_store_def list_all_iff)
  have 4: "next_id s \<le> next_id (snd (api req s))"
    by (rule next_id_api)
  have 5: "map pid (rows (snd (api req s))) = map pid (rows s)
        \<or> (\<exists>k. map pid (rows (snd (api req s))) = filter (\<lambda>j. j \<noteq> k) (map pid (rows s)))
        \<or> map pid (rows (snd (api req s))) = map pid (rows s) @ [next_id s]"
    using pids_api [of req s] by blast
  have 6: "meth req = PATCH \<or> meth req = DELETE \<longrightarrow>
          list_all (\<lambda>p'. \<exists>p\<in>set (rows s). pid p = pid p' \<and> price p = price p')
            (rows (snd (api req s)))"
    using prices_api [of req _ s] by (auto simp: list_all_iff)
  from 1 2 3 4 5 6 show ?thesis
    unfolding s_def earlier_def Let_def by blast
qed

lemma create_mouse_run: "api_all [create_mouse] empty_store = one_mouse"
  by code_simp

theorem store_invariants_witness:
  "api_all [create_mouse] empty_store = one_mouse \<and>
   (let earlier = api_all [create_mouse] empty_store;
        s = api_all [] earlier;
        s' = snd (api \<lparr>meth = PATCH, path_id = Some ''1'', body = Map.empty\<rparr> s) in
     list_all (\<lambda>p. positive (price p)) (rows s)
     \<and> distinct (map pid (rows s))
     \<and> list_all (\<lambda>p. pid p < next_id s) (rows earlier)
     \<and> next_id s \<le> next_id s'
     \<and> (map pid (rows s') = map pid (rows s)
        \<or> (\<exists>k. map pid (rows s') = filter (\<lambda>j. j \<noteq> k) (map pid (rows s)))
        \<or> map pid (rows s') = map pid (rows s) @ [next_id s])
     \<and> (meth \<lparr>meth = PATCH, path_id = Some ''1'', body = Map.empty\<rparr> = PATCH
         \<or> meth \<lparr>meth = PATCH, path_id = Some ''1'', body = Map.empty\<rparr> = DELETE \<longrightarrow>
          list_all (\<lambda>p'. \<exists>p\<in>set (rows s). pid p = pid p' \<and> price p = price p') (rows s')))"
  using create_mouse_run
    store_invariants [of "[create_mouse]" "[]"
      "\<lparr>meth = PATCH, path_id = Some ''1'', body = Map.empty\<rparr>"]
  by (rule conjI)

section \<open>A malformed id\<close>

text \<open>
  C2, as amended. For GET, PUT, PATCH and DELETE on \<open>/:id\<close> with an id that is not an
  integer, the answer is 400 and its first error is the one of the id, with the message
  \<open>id_invalid\<close>; the store is left as it was and the answer does not depend on the
  store or on the handlers, so no existence check is made. For GET, PATCH and DELETE
  this is the only error. For PUT the errors of the body follow it, so it is the only
  error exactly when the body passes its own validation.
\<close>

theorem invalid_id_rejected:
  assumes "\<not> isInt i" and "m \<in> {GET, PUT, PATCH, DELETE}"
  shows "serve impl \<lparr>meth = m, path_id = Some i, body = b\<rparr> s =
     (\<lparr>status = 400,
       reply = Errors
         (id_error i #
          (if m = PUT
           then run_chain body_name \<lparr>meth = m, path_id = Some i, body = b\<rparr>
                @ run_chain body_price \<lparr>meth = m, path_id = Some i, body = b\<rparr>
                @ run_chain body_availability \<lparr>meth = m, path_id = Some i, body = b\<rparr>
           else []))\<rparr>, s)"
  using assms
  by (auto simp: serve_get serve_patch serve_delete serve_put run_param_id)

lemma not_isInt_abc: "\<not> isInt ''abc''"
  by (simp add: isInt_def strip_sign_def all_in_def)

theorem invalid_id_rejected_witness:
  "\<not> isInt ''abc'' \<and> GET \<in> {GET, PUT, PATCH, DELETE} \<and>
   api \<lparr>meth = GET, path_id = Some ''abc'', body = Map.empty\<rparr> one_mouse =
     (\<lparr>status = 400, reply = Errors [id_error ''abc'']\<rparr>, one_mouse)"
  using invalid_id_rejected [OF not_isInt_abc, of GET handlers Map.empty one_mouse] not_isInt_abc
  by (simp add: api_def)

text \<open>
  The claim as stated asks for exactly one error on PUT too. A PUT with the id
  \<open>abc\<close> and an empty body is answered with six.
\<close>

theorem invalid_id_put_counterexample:
  "\<not> isInt ''abc'' \<and>
   fst (api \<lparr>meth = PUT, path_id = Some ''abc'', body = Map.empty\<rparr> one_mouse) =
     \<lparr>status = 400,
      reply = Errors
        [id_error ''abc'',
         body_error ''name'' JUndefined name_empty,
         body_error ''price'' JUndefined price_not_numeric,
         body_error ''price'' JUndefined price_empty,
         body_error ''price'' JUndefined price_not_positive,
         body_error ''availability'' JUndefined availability_invalid]\<rparr>"
  by code_simp

section \<open>An id that is not in the store\<close>

lemma absent_lookup:
  assumes "parse_id i = Some k" and "findByPk k s = None"
    and "m \<in> {GET, PUT, PATCH, DELETE}"
  shows "api \<lparr>meth = m, path_id = Some i, body = b\<rparr> s =
     (if m = PUT \<and> run_chain body_name \<lparr>meth = m, path_id = Some i, body = b\<rparr>
                   @ run_chain body_price \<lparr>meth = m, path_id = Some i, body = b\<rparr>
                   @ run_chain body_availability \<lparr>meth = m, path_id = Some i, body = b\<rparr> \<noteq> []
      then (\<lparr>status = 400,
             reply = Errors
               (run_chain body_name \<lparr>meth = m, path_id = Some i, body = b\<rparr>
                @ run_chain body_price \<lparr>meth = m, path_id = Some i, body = b\<rparr>
                @ run_chain body_availability \<lparr>meth = m, path_id = Some i, body = b\<rparr>)\<rparr>, s)
      else (\<lparr>status = 404, reply = Error ''Producto no encontrado''\<rparr>, s))"
proof -
  have ft: "find_target \<lparr>meth = m, path_id = Some i, body = b\<rparr> s = Inl not_found"
    using assms(1,2) by (simp add: find_target_eq)
  from assms(3) ft parse_id_isInt [OF assms(1)] show ?thesis
    by (auto simp: api_def serve_get serve_patch serve_delete serve_put run_param_id
        getProductById_def updateProduct_def updateAvailability_def deleteProduct_def
        not_found_def)
qed

text \<open>
  C3. For GET, PUT, PATCH and DELETE on an integer id that no product has, the answer
  is 404 with the error \<open>Producto no encontrado\<close> and the store is left as it was.
  For PUT this holds when the body passes validation; a body that does not is answered
  400 first, so the existence check comes after validation.
\<close>

theorem absent_id_not_found:
  assumes "parse_id i = Some k" and "findByPk k s = None"
    and "m \<in> {GET, PUT, PATCH, DELETE}"
  shows "api \<lparr>meth = m, path_id = Some i, body = b\<rparr> s =
     (if m = PUT \<and> run_chain body_name \<lparr>meth = m, path_id = Some i, body = b\<rparr>
                   @ run_chain body_price \<lparr>meth = m, path_id = Some i, body = b\<rparr>
                   @ run_chain body_availability \<lparr>meth = m, path_id = Some i, body = b\<rparr> \<noteq> []
      then (\<lparr>status = 400,
             reply = Errors
               (run_chain body_name \<lparr>meth = m, path_id = Some i, body = b\<rparr>
                @ run_chain body_price \<lparr>meth = m, path_id = Some i, body = b\<rparr>
                @ run_chain body_availability \<lparr>meth = m, path_id = Some i, body = b\<rparr>)\<rparr>, s)
      else (\<lparr>status = 404, reply = Error ''Producto no encontrado''\<rparr>, s))"
  using assms by (rule absent_lookup)

lemma parse_id_2000: "parse_id ''2000'' = Some 2000"
  by code_simp

lemma parse_id_1: "parse_id ''1'' = Some 1"
  by code_simp

lemma no_2000: "findByPk 2000 one_mouse = None"
  by code_simp

lemma find_mouse: "findByPk 1 one_mouse = Some mouse"
  by code_simp

theorem absent_id_not_found_witness:
  "parse_id ''2000'' = Some 2000 \<and> findByPk 2000 one_mouse = None
   \<and> GET \<in> {GET, PUT, PATCH, DELETE}
   \<and> api \<lparr>meth = GET, path_id = Some ''2000'', body = Map.empty\<rparr> one_mouse =
       (\<lparr>status = 404, reply = Error ''Producto no encontrado''\<rparr>, one_mouse)"
  using absent_id_not_found [OF parse_id_2000 no_2000, of GET Map.empty] parse_id_2000 no_2000
  by simp

section \<open>Toggling the availability\<close>

text \<open>
  C4. A PATCH on the id of an existing product, with any body, is answered 200 with the
  product in which the availability is the complement of what it was and the id, the
  name and the price are what they were; the store holds this product under the id and
  no other row changes. A second PATCH on the same id, with any body, is answered 200
  with the original product, which the store holds again; where the primary key is
  unique, as in every store that requests can reach, the whole store is the original
  one.
\<close>

theorem toggle_availability:
  assumes "parse_id i = Some k" and "findByPk k s = Some p"
  shows "let req = \<lparr>meth = PATCH, path_id = Some i, body = b\<rparr>;
             req' = \<lparr>meth = PATCH, path_id = Some i, body = b'\<rparr>;
             p' = p\<lparr>availability := \<not> availability p\<rparr>;
             s' = snd (api req s)
         in fst (api req s) = \<lparr>status = 200, reply = Data_product p'\<rparr>
            \<and> pid p' = pid p \<and> name p' = name p \<and> price p' = price p
            \<and> availability p' = (\<not> availability p)
            \<and> rows s' = map (\<lambda>q. if pid q = k then p' else q) (rows s)
            \<and> next_id s' = next_id s
            \<and> findByPk k s' = Some p'
            \<and> fst (api req' s') = \<lparr>status = 200, reply = Data_product p\<rparr>
            \<and> findByPk k (snd (api req' s')) = Some p
            \<and> (distinct (map pid (rows s)) \<longrightarrow> snd (api req' s') = s)"
proof -
  let ?req = "\<lparr>meth = PATCH, path_id = Some i, body = b\<rparr>"
  let ?req' = "\<lparr>meth = PATCH, path_id = Some i, body = b'\<rparr>"
  let ?p' = "p\<lparr>availability := \<not> availability p\<rparr>"
  have int: "isInt i" by (rule parse_id_isInt [OF assms(1)])
  have pk: "pid p = k" using assms(2) findByPk_Some by blast
  have "find_target ?req s = Inr p"
    using assms(1,2) by (simp add: find_target_eq)
  then have first: "api ?req s = (\<lparr>status = 200, reply = Data_product ?p'\<rparr>, save_row ?p' s)"
    using int by (simp add: api_def serve_patch updateAvailability_def Let_def)
  have found: "findByPk k (save_row ?p' s) = Some ?p'"
    using assms(2) pk by (simp add: findByPk_save_row)
  then have "find_target ?req' (save_row ?p' s) = Inr ?p'"
    using assms(1) by (simp add: find_target_eq)
  then have "api ?req' (save_row ?p' s) =
      (\<lparr>status = 200, reply = Data_product (?p'\<lparr>availability := \<not> availability ?p'\<rparr>)\<rparr>,
       save_row (?p'\<lparr>availability := \<not> availability ?p'\<rparr>) (save_row ?p' s))"
    using int by (simp add: api_def serve_patch updateAvailability_def Let_def)
  moreover have "?p'\<lparr>availability := \<not> availability ?p'\<rparr> = p" by simp
  ultimately have second: "api ?req' (save_row ?p' s) =
      (\<lparr>status = 200, reply = Data_product p\<rparr>, save_row p (save_row ?p' s))"
    by simp
  have again: "findByPk k (save_row p (save_row ?p' s)) = Some p"
    using found pk by (rule findByPk_save_row)
  have whole: "save_row p (save_row ?p' s) = s" if "distinct (map pid (rows s))"
    using that assms(2) pk by (simp add: save_row_twice)
  have rows': "rows (save_row ?p' s) = map (\<lambda>q. if pid q = k then ?p' else q) (rows s)"
    using pk by (simp add: save_row_def)
  have nid: "next_id (save_row ?p' s) = next_id s"
    by (simp add: save_row_def)
  from first second found again whole rows' nid show ?thesis
    by (simp add: Let_def)
qed

lemma pids_one_mouse: "distinct (map pid (rows one_mouse))"
  by code_simp

theorem toggle_availability_witness:
  "parse_id ''1'' = Some 1 \<and> findByPk 1 one_mouse = Some mouse
   \<and> distinct (map pid (rows one_mouse))
   \<and> (let req = \<lparr>meth = PATCH, path_id = Some ''1'', body = Map.empty\<rparr>;
           s' = snd (api req one_mouse)
       in fst (api req one_mouse) =
            \<lparr>status = 200, reply = Data_product (mouse\<lparr>availability := False\<rparr>)\<rparr>
          \<and> rows s' = [mouse\<lparr>availability := False\<rparr>]
          \<and> api req s' = (\<lparr>status = 200, reply = Data_product mouse\<rparr>, one_mouse))"
  using toggle_availability [OF parse_id_1 find_mouse, of Map.empty Map.empty]
    parse_id_1 find_mouse pids_one_mouse
  by (simp add: Let_def one_mouse_def mouse_def prod_eq_iff)

section \<open>Deleting a product\<close>

lemma get_absent:
  assumes "parse_id i = Some k" and "findByPk k s = None"
  shows "api \<lparr>meth = GET, path_id = Some i, body = b\<rparr> s =
     (\<lparr>status = 404, reply = Error ''Producto no encontrado''\<rparr>, s)"
proof -
  have "find_target \<lparr>meth = GET, path_id = Some i, body = b\<rparr> s = Inl not_found"
    using assms by (simp add: find_target_eq)
  with parse_id_isInt [OF assms(1)] show ?thesis
    by (simp add: api_def serve_get getProductById_def not_found_def)
qed

lemma gone_api:
  assumes "findByPk k s = None" and "k < next_id s"
  shows "findByPk k (snd (api req s)) = None \<and> k < next_id (snd (api req s))"
proof -
  from assms(1) have "k \<notin> set (map pid (rows s))"
    by (simp add: findByPk_None)
  with pids_api [of req s] assms(2)
  have "k \<notin> set (map pid (rows (snd (api req s)))) \<and> k < next_id (snd (api req s))"
    by (elim disjE exE conjE) auto
  then show ?thesis by (simp add: findByPk_None)
qed

lemma gone_api_all:
  "findByPk k s = None \<Longrightarrow> k < next_id s \<Longrightarrow> findByPk k (api_all reqs s) = None"
proof (induction reqs arbitrary: s)
  case Nil
  then show ?case by simp
next
  case (Cons req reqs)
  from gone_api [OF Cons.prems, of req] Cons.IH show ?case by simp
qed

text \<open>
  C9. A DELETE on the id of an existing product is answered 200 with the data
  \<open>Producto Eliminado\<close> and removes the row from the store. A GET on the same id
  right after it is answered 404, and so is a GET after any further requests: the id
  does not come back, because the counter has passed it.
\<close>

theorem delete_then_get:
  assumes "parse_id i = Some k" and "findByPk k s = Some p"
  shows "let s' = snd (api \<lparr>meth = DELETE, path_id = Some i, body = b\<rparr> s)
         in fst (api \<lparr>meth = DELETE, path_id = Some i, body = b\<rparr> s) =
              \<lparr>status = 200, reply = Data_text ''Producto Eliminado''\<rparr>
            \<and> rows s' = filter (\<lambda>q. pid q \<noteq> k) (rows s)
            \<and> next_id s' = next_id s
            \<and> api \<lparr>meth = GET, path_id = Some i, body = b'\<rparr> s' =
                (\<lparr>status = 404, reply = Error ''Producto no encontrado''\<rparr>, s')
            \<and> (list_all (\<lambda>q. pid q < next_id s) (rows s) \<longrightarrow>
                fst (api \<lparr>meth = GET, path_id = Some i, body = b'\<rparr> (api_all reqs s')) =
                  \<lparr>status = 404, reply = Error ''Producto no encontrado''\<rparr>)"
proof -
  let ?del = "\<lparr>meth = DELETE, path_id = Some i, body = b\<rparr>"
  have pk: "pid p = k" and mem: "p \<in> set (rows s)"
    using assms(2) findByPk_Some by blast+
  have "find_target ?del s = Inr p"
    using assms by (simp add: find_target_eq)
  with parse_id_isInt [OF assms(1)] pk
  have del: "api ?del s = (\<lparr>status = 200, reply = Data_text ''Producto Eliminado''\<rparr>,
      destroy_row k s)"
    by (simp add: api_def serve_delete deleteProduct_def)
  have gone: "findByPk k (destroy_row k s) = None"
    by (rule findByPk_destroy_row)
  have get: "api \<lparr>meth = GET, path_id = Some i, body = b'\<rparr> (destroy_row k s) =
      (\<lparr>status = 404, reply = Error ''Producto no encontrado''\<rparr>, destroy_row k s)"
    by (rule get_absent [OF assms(1) gone])
  have later: "fst (api \<lparr>meth = GET, path_id = Some i, body = b'\<rparr>
        (api_all reqs (destroy_row k s))) =
      \<lparr>status = 404, reply = Error ''Producto no encontrado''\<rparr>"
    if "list_all (\<lambda>q. pid q < next_id s) (rows s)"
  proof -
    from that mem pk have "k < next_id (destroy_row k s)"
      by (auto simp: list_all_iff destroy_row_def)
    with gone have "findByPk k (api_all reqs (destroy_row k s)) = None"
      by (rule gone_api_all)
    with assms(1) show ?thesis by (simp add: get_absent)
  qed
  from del get later show ?thesis
    by (simp add: Let_def destroy_row_def)
qed

lemma under_counter_one_mouse: "list_all (\<lambda>q. pid q < next_id one_mouse) (rows one_mouse)"
  by code_simp

theorem delete_then_get_witness:
  "parse_id ''1'' = Some 1 \<and> findByPk 1 one_mouse = Some mouse
   \<and> list_all (\<lambda>q. pid q < next_id one_mouse) (rows one_mouse)
   \<and> api \<lparr>meth = DELETE, path_id = Some ''1'', body = Map.empty\<rparr> one_mouse =
       (\<lparr>status = 200, reply = Data_text ''Producto Eliminado''\<rparr>, \<lparr>rows = [], next_id = 2\<rparr>)
   \<and> api \<lparr>meth = GET, path_id = Some ''1'', body = Map.empty\<rparr> \<lparr>rows = [], next_id = 2\<rparr> =
       (\<lparr>status = 404, reply = Error ''Producto no encontrado''\<rparr>, \<lparr>rows = [], next_id = 2\<rparr>)
   \<and> fst (api \<lparr>meth = GET, path_id = Some ''1'', body = Map.empty\<rparr>
         (api_all [create_mouse] \<lparr>rows = [], next_id = 2\<rparr>)) =
       \<lparr>status = 404, reply = Error ''Producto no encontrado''\<rparr>"
proof -
  have sd: "snd (api \<lparr>meth = DELETE, path_id = Some ''1'', body = Map.empty\<rparr> one_mouse) =
      \<lparr>rows = [], next_id = 2\<rparr>"
    by code_simp
  note th = delete_then_get [OF parse_id_1 find_mouse, of Map.empty Map.empty "[create_mouse]",
      unfolded Let_def sd]
  with under_counter_one_mouse parse_id_1 find_mouse sd show ?thesis
    by (simp add: prod_eq_iff)
qed


section \<open>Decimal numerals\<close>

lemma digit_chars_table:
  "list_all (\<lambda>d. is_digit (char_of (48 + d)) \<and> digit_val (char_of (48 + d)) = d
      \<and> (char_of (48 + d) = CHR ''0'' \<longleftrightarrow> d = 0)) [0..<10]"
  by code_simp

lemma digit_char:
  assumes "d < 10"
  shows "is_digit (char_of (48 + d))" and "digit_val (char_of (48 + d)) = d"
    and "char_of (48 + d) = CHR ''0'' \<longleftrightarrow> d = 0"
  using digit_chars_table assms by (simp_all add: list_all_iff)

lemma digits_of_digits: "list_all is_digit (digits_of n)"
proof (induction n rule: digits_of.induct)
  case (1 n)
  show ?case
  proof (cases "n < 10")
    case True
    then show ?thesis by (subst digits_of.simps) (simp add: digit_char)
  next
    case False
    with 1 show ?thesis by (subst digits_of.simps) (simp add: digit_char)
  qed
qed

lemma digits_of_not_Nil: "digits_of n \<noteq> []"
  by (subst digits_of.simps) simp

lemma nat_of_digits_snoc:
  "nat_of_digits b (xs @ [c]) = nat_of_digits b xs * b + digit_val c"
  by (simp add: nat_of_digits_def)

lemma nat_of_digits_of: "nat_of_digits 10 (digits_of n) = n"
proof (induction n rule: digits_of.induct)
  case (1 n)
  show ?case
  proof (cases "n < 10")
    case True
    then show ?thesis
      by (subst digits_of.simps) (simp add: nat_of_digits_def digit_char)
  next
    case False
    with 1 show ?thesis
      by (subst digits_of.simps) (simp add: nat_of_digits_snoc digit_char)
  qed
qed

lemma digits_of_nonzero: "0 < n \<Longrightarrow> \<exists>c\<in>set (digits_of n). c \<noteq> CHR ''0''"
proof (induction n rule: digits_of.induct)
  case (1 n)
  show ?case
  proof (cases "n < 10")
    case True
    with 1(2) show ?thesis by (subst digits_of.simps) (simp add: digit_char)
  next
    case False
    then have "0 < n div 10" by simp
    with 1(1) False have "\<exists>c\<in>set (digits_of (n div 10)). c \<noteq> CHR ''0''" by simp
    with False show ?thesis by (subst digits_of.simps) auto
  qed
qed

lemma sign_not_digit: "is_digit c \<Longrightarrow> c \<noteq> CHR ''+'' \<and> c \<noteq> CHR ''-'' \<and> c \<noteq> CHR ''.''"
  by (auto simp: is_digit_def)

lemma strip_sign_digits: "list_all is_digit ds \<Longrightarrow> strip_sign ds = ds"
  by (cases ds) (auto simp: strip_sign_def dest: sign_not_digit)

lemma has_minus_digits: "list_all is_digit ds \<Longrightarrow> \<not> has_minus ds"
  by (cases ds) (auto simp: has_minus_def dest: sign_not_digit)

lemma all_in_digits: "all_in ''0123456789'' ds \<longleftrightarrow> ds \<noteq> [] \<and> list_all is_digit ds"
  by (simp add: all_in_def list_all_iff is_digit_def del: set_simps)

lemma isInt_decimal_of_int: "isInt (decimal_of_int n)"
proof (cases "n < 0")
  case True
  then have "strip_sign (decimal_of_int n) = digits_of (nat \<bar>n\<bar>)"
    by (simp add: decimal_of_int_def strip_sign_def)
  then show ?thesis
    by (simp add: isInt_def all_in_digits digits_of_digits digits_of_not_Nil)
next
  case False
  then have "strip_sign (decimal_of_int n) = digits_of (nat \<bar>n\<bar>)"
    by (simp add: decimal_of_int_def strip_sign_digits digits_of_digits)
  then show ?thesis
    by (simp add: isInt_def all_in_digits digits_of_digits digits_of_not_Nil)
qed

lemma parse_id_decimal_of_int: "parse_id (decimal_of_int n) = Some n"
proof (cases "n < 0")
  case True
  then have "decimal_of_int n = CHR ''-'' # digits_of (nat \<bar>n\<bar>)"
    by (simp add: decimal_of_int_def)
  then have "strip_sign (decimal_of_int n) = digits_of (nat \<bar>n\<bar>)"
    and "has_minus (decimal_of_int n)"
    by (simp_all add: strip_sign_def has_minus_def)
  with True show ?thesis
    by (simp add: parse_id_def isInt_decimal_of_int nat_of_digits_of)
next
  case False
  then have "decimal_of_int n = digits_of (nat \<bar>n\<bar>)"
    by (simp add: decimal_of_int_def)
  then have "strip_sign (decimal_of_int n) = digits_of (nat \<bar>n\<bar>)"
    and "\<not> has_minus (decimal_of_int n)"
    by (simp_all add: strip_sign_digits has_minus_digits digits_of_digits)
  with False show ?thesis
    by (simp add: parse_id_def isInt_decimal_of_int nat_of_digits_of)
qed


section \<open>Numbers that pass the numeric rule\<close>

lemma takeWhile_digits_dot:
  "list_all is_digit a \<Longrightarrow> takeWhile is_digit (a @ CHR ''.'' # f) = a"
  by (induction a) (auto simp: is_digit_def)

lemma dropWhile_digits_dot:
  "list_all is_digit a \<Longrightarrow> dropWhile is_digit (a @ CHR ''.'' # f) = CHR ''.'' # f"
  by (induction a) (auto simp: is_digit_def)

lemma strip_sign_digits_dot:
  "list_all is_digit a \<Longrightarrow> strip_sign (a @ CHR ''.'' # f) = a @ CHR ''.'' # f"
  by (cases a) (auto simp: strip_sign_def dest: sign_not_digit)

lemma isNumeric_digits:
  assumes "ds \<noteq> []" and "list_all is_digit ds"
  shows "isNumeric ds"
proof -
  from assms(2) have tw: "takeWhile is_digit ds = ds" and dw: "dropWhile is_digit ds = []"
    by (simp_all add: takeWhile_eq_all_conv dropWhile_eq_Nil_conv list_all_iff)
  show ?thesis
    unfolding isNumeric_def Let_def strip_sign_digits [OF assms(2)] tw dw
    using assms(1) by simp
qed

lemma isNumeric_fraction:
  "list_all is_digit a \<Longrightarrow> f \<noteq> [] \<Longrightarrow> list_all is_digit f \<Longrightarrow>
   isNumeric (a @ CHR ''.'' # f)"
  by (simp add: isNumeric_def strip_sign_digits_dot takeWhile_digits_dot dropWhile_digits_dot
      all_in_digits)

lemma strip_zeros_digits: "list_all is_digit ds \<Longrightarrow> list_all is_digit (strip_zeros ds)"
  by (auto simp: strip_zeros_def list_all_iff dest: set_dropWhileD)

lemma strip_zeros_not_Nil: "\<exists>c\<in>set ds. c \<noteq> CHR ''0'' \<Longrightarrow> strip_zeros ds \<noteq> []"
  by (auto simp: strip_zeros_def dropWhile_eq_Nil_conv)

lemma zero_digit: "is_digit (CHR ''0'')"
  by (simp add: is_digit_def)

lemma number_to_string_plain:
  assumes "positive x" and "- 6 < decimal_point x" and "decimal_point x \<le> 21"
  shows "isNumeric (number_to_string x)"
proof -
  define ds where "ds = strip_zeros (digits_of (nat \<bar>mantissa x\<bar>))"
  define n where "n = decimal_point x"
  from assms(1) have pos: "0 < mantissa x" by (simp add: positive_def)
  then have "0 < nat \<bar>mantissa x\<bar>" by simp
  then have nz: "ds \<noteq> []"
    unfolding ds_def by (intro strip_zeros_not_Nil digits_of_nonzero)
  have dg: "list_all is_digit ds"
    unfolding ds_def by (intro strip_zeros_digits digits_of_digits)
  have eq: "number_to_string x =
      (if int (length ds) \<le> n \<and> n \<le> 21 then ds @ replicate (nat (n - int (length ds))) (CHR ''0'')
       else if 0 < n \<and> n \<le> 21 then take (nat n) ds @ CHR ''.'' # drop (nat n) ds
       else [CHR ''0''] @ CHR ''.'' # (replicate (nat (- n)) (CHR ''0'') @ ds))"
    using pos assms(2,3) by (simp add: number_to_string_def Let_def ds_def n_def)
  show ?thesis
  proof (cases "int (length ds) \<le> n \<and> n \<le> 21")
    case True
    have "isNumeric (ds @ replicate (nat (n - int (length ds))) (CHR ''0''))"
      using nz dg by (intro isNumeric_digits) (auto simp: list_all_iff zero_digit)
    with eq True show ?thesis by simp
  next
    case False
    note nk = this
    show ?thesis
    proof (cases "0 < n \<and> n \<le> 21")
      case True
      with nk have "nat n < length ds" by auto
      then have "drop (nat n) ds \<noteq> []" by simp
      moreover from dg have "list_all is_digit (take (nat n) ds)"
        and "list_all is_digit (drop (nat n) ds)"
        by (auto simp: list_all_iff dest: in_set_takeD in_set_dropD)
      ultimately have "isNumeric (take (nat n) ds @ CHR ''.'' # drop (nat n) ds)"
        by (intro isNumeric_fraction)
      with eq nk True show ?thesis by simp
    next
      case False
      have "isNumeric ([CHR ''0''] @ CHR ''.'' # (replicate (nat (- n)) (CHR ''0'') @ ds))"
        using nz dg by (intro isNumeric_fraction) (auto simp: zero_digit list_all_iff)
      with eq nk False show ?thesis by simp
    qed
  qed
qed

lemma number_to_string_not_Nil: "number_to_string x \<noteq> []"
proof (cases "mantissa x = 0")
  case True
  then show ?thesis by (simp add: number_to_string_def)
next
  case False
  define ds where "ds = strip_zeros (digits_of (nat \<bar>mantissa x\<bar>))"
  from False have "0 < nat \<bar>mantissa x\<bar>" by simp
  then have "ds \<noteq> []"
    unfolding ds_def by (intro strip_zeros_not_Nil digits_of_nonzero)
  with False show ?thesis
    unfolding number_to_string_def Let_def ds_def [symmetric] by auto
qed


section \<open>Creating a product\<close>

lemma price_accepted:
  assumes "b ''price'' = Some (JNum x)" and "positive x"
    and "- 6 < decimal_point x" and "decimal_point x \<le> 21"
  shows "run_chain body_price \<lparr>meth = m, path_id = pth, body = b\<rparr> = []"
  using assms
  by (simp add: run_body_price field_def number_to_string_plain isEmpty_def
      number_to_string_not_Nil)

lemma name_accepted:
  assumes "b ''name'' = Some (JStr n)" and "n \<noteq> []"
  shows "run_chain body_name \<lparr>meth = m, path_id = pth, body = b\<rparr> = []"
  using assms by (simp add: run_body_name field_def isEmpty_def)

text \<open>
  What the create route does for the prices that JavaScript prints in plain decimal
  notation (at least \<open>10 ^ -6\<close> and below \<open>10 ^ 21\<close>): with a name that is a
  non-empty string and such a price above zero, the answer is 201 with the new record.
  Its id is the counter's value, its availability is true, its name and price are those
  of the request; the record is appended to the store. In a store reached from the
  empty one, this id differs from the id of every product that was in the store at any
  earlier moment.
\<close>

lemma create_product:
  assumes "b ''name'' = Some (JStr n)" and "n \<noteq> []"
    and "b ''price'' = Some (JNum x)" and "positive x"
    and "- 6 < decimal_point x" and "decimal_point x \<le> 21"
  shows "api \<lparr>meth = POST, path_id = None, body = b\<rparr> s =
           (\<lparr>status = 201,
             reply = Data_product
               \<lparr>pid = next_id s, name = n, price = x, availability = True\<rparr>\<rparr>,
            \<lparr>rows = rows s @ [\<lparr>pid = next_id s, name = n, price = x, availability = True\<rparr>],
             next_id = next_id s + 1\<rparr>)
         \<and> (s = api_all (before @ after) empty_store \<longrightarrow>
              list_all (\<lambda>q. pid q \<noteq> next_id s) (rows (api_all before empty_store)))"
proof
  show "api \<lparr>meth = POST, path_id = None, body = b\<rparr> s =
           (\<lparr>status = 201,
             reply = Data_product
               \<lparr>pid = next_id s, name = n, price = x, availability = True\<rparr>\<rparr>,
            \<lparr>rows = rows s @ [\<lparr>pid = next_id s, name = n, price = x, availability = True\<rparr>],
             next_id = next_id s + 1\<rparr>)"
    using assms
    by (simp add: api_def serve_post name_accepted price_accepted createProduct_def field_def
        insert_row_def Let_def)
next
  show "s = api_all (before @ after) empty_store \<longrightarrow>
          list_all (\<lambda>q. pid q \<noteq> next_id s) (rows (api_all before empty_store))"
  proof
    assume s: "s = api_all (before @ after) empty_store"
    have "wf_store (api_all before empty_store)"
      by (rule wf_api_all [OF wf_empty_store])
    then have "list_all (\<lambda>q. pid q < next_id (api_all before empty_store))
        (rows (api_all before empty_store))"
      by (simp add: wf_store_def list_all_iff)
    moreover have "next_id (api_all before empty_store) \<le> next_id s"
      unfolding s api_all_append by (rule next_id_api_all)
    ultimately show "list_all (\<lambda>q. pid q \<noteq> next_id s) (rows (api_all before empty_store))"
      by (auto simp: list_all_iff)
  qed
qed

lemma positive_50: "positive (Number 50 0)"
  by code_simp

lemma point_50: "decimal_point (Number 50 0) = 2"
  by code_simp

lemma create_product_example:
  "mouse_body ''name'' = Some (JStr ''Mouse - Testing'')
   \<and> ''Mouse - Testing'' \<noteq> []
   \<and> mouse_body ''price'' = Some (JNum (Number 50 0))
   \<and> positive (Number 50 0) \<and> - 6 < decimal_point (Number 50 0)
   \<and> decimal_point (Number 50 0) \<le> 21
   \<and> one_mouse = api_all ([create_mouse] @ []) empty_store
   \<and> api create_mouse one_mouse =
       (\<lparr>status = 201,
         reply = Data_product
           \<lparr>pid = next_id one_mouse, name = ''Mouse - Testing'', price = Number 50 0,
            availability = True\<rparr>\<rparr>,
        \<lparr>rows = rows one_mouse @
           [\<lparr>pid = next_id one_mouse, name = ''Mouse - Testing'', price = Number 50 0,
             availability = True\<rparr>],
         next_id = next_id one_mouse + 1\<rparr>)
   \<and> list_all (\<lambda>q. pid q \<noteq> next_id one_mouse) (rows (api_all [create_mouse] empty_store))"
proof -
  have 1: "mouse_body ''name'' = Some (JStr ''Mouse - Testing'')"
    by (simp add: mouse_body_def)
  have 2: "''Mouse - Testing'' \<noteq> []" by simp
  have 3: "mouse_body ''price'' = Some (JNum (Number 50 0))"
    by (simp add: mouse_body_def)
  have 5: "- 6 < decimal_point (Number 50 0)" and 6: "decimal_point (Number 50 0) \<le> 21"
    by (simp_all add: point_50)
  have 7: "one_mouse = api_all ([create_mouse] @ []) empty_store"
    using create_mouse_run by simp
  note th = create_product [OF 1 2 3 positive_50 5 6, of one_mouse "[create_mouse]" "[]",
      folded create_mouse_def]
  from th 7 have 8: "api create_mouse one_mouse =
       (\<lparr>status = 201,
         reply = Data_product
           \<lparr>pid = next_id one_mouse, name = ''Mouse - Testing'', price = Number 50 0,
            availability = True\<rparr>\<rparr>,
        \<lparr>rows = rows one_mouse @
           [\<lparr>pid = next_id one_mouse, name = ''Mouse - Testing'', price = Number 50 0,
             availability = True\<rparr>],
         next_id = next_id one_mouse + 1\<rparr>)"
    and 9: "list_all (\<lambda>q. pid q \<noteq> next_id one_mouse) (rows (api_all [create_mouse] empty_store))"
    by blast+
  from 1 2 3 positive_50 5 6 7 8 9 show ?thesis by blast
qed

text \<open>
  C5. A create request with a non-empty name and a numeric price above zero is to be
  answered 201 with the new record. The price chain of router.ts does not let every
  such request through: its numeric rule reads the text that JavaScript prints for the
  number, and \<open>1e21\<close> is printed \<open>1e+21\<close>. For the name \<open>Mouse - Testing\<close> and
  the price \<open>1e21\<close>, a number above zero, the name has no error, the positivity rule
  and the emptiness rule have none, and the numeric rule reports the price as not
  numeric.
\<close>

theorem create_exponent_price_rejected:
  "positive (Number 1 21)
   \<and> toString (JNum (Number 1 21)) = ''1e+21''
   \<and> run_chain body_name \<lparr>meth = POST, path_id = None,
        body = [''name'' \<mapsto> JStr ''Mouse - Testing'', ''price'' \<mapsto> JNum (Number 1 21)]\<rparr>
       = []
   \<and> run_chain body_price \<lparr>meth = POST, path_id = None,
        body = [''name'' \<mapsto> JStr ''Mouse - Testing'', ''price'' \<mapsto> JNum (Number 1 21)]\<rparr>
       = [body_error ''price'' (JNum (Number 1 21)) price_not_numeric]"
  by code_simp

text \<open>With this one error the request is answered 400 and nothing is created.\<close>

lemma create_exponent_price_answer:
  "api \<lparr>meth = POST, path_id = None,
        body = [''name'' \<mapsto> JStr ''Mouse - Testing'', ''price'' \<mapsto> JNum (Number 1 21)]\<rparr>
     empty_store =
     (\<lparr>status = 400,
       reply = Errors [body_error ''price'' (JNum (Number 1 21)) price_not_numeric]\<rparr>,
      empty_store)"
  by code_simp


text \<open>
  The same happens below \<open>10 ^ -6\<close>: the price \<open>1e-7\<close> is printed with its
  exponent, while \<open>1e-6\<close> is printed \<open>0.000001\<close> and passes.
\<close>

lemma create_small_price_rejected:
  "positive (Number 1 (- 7)) \<and> toString (JNum (Number 1 (- 7))) = ''1e-7'' \<and>
   toString (JNum (Number 1 (- 6))) = ''0.000001'' \<and>
   run_chain body_price \<lparr>meth = POST, path_id = None,
        body = [''name'' \<mapsto> JStr ''Mouse - Testing'', ''price'' \<mapsto> JNum (Number 1 (- 7))]\<rparr> =
     [body_error ''price'' (JNum (Number 1 (- 7))) price_not_numeric]"
  by code_simp

section \<open>Zero and negative ids\<close>

text \<open>
  C10, as amended. The decimal numeral of every integer, zero and the negative ones
  included, passes the validation of the id and is read back as that integer. When no
  product has this id, GET, PATCH and DELETE are answered 404 and not 400, and so is
  PUT when its body passes validation; the store is left as it was.
\<close>

theorem every_integer_id_accepted:
  assumes "findByPk n s = None" and "m \<in> {GET, PUT, PATCH, DELETE}"
    and "m = PUT \<longrightarrow>
         run_chain body_name \<lparr>meth = m, path_id = Some (decimal_of_int n), body = b\<rparr>
         @ run_chain body_price \<lparr>meth = m, path_id = Some (decimal_of_int n), body = b\<rparr>
         @ run_chain body_availability
             \<lparr>meth = m, path_id = Some (decimal_of_int n), body = b\<rparr> = []"
  shows "run_chain param_id \<lparr>meth = m, path_id = Some (decimal_of_int n), body = b\<rparr> = []
     \<and> parse_id (decimal_of_int n) = Some n
     \<and> api \<lparr>meth = m, path_id = Some (decimal_of_int n), body = b\<rparr> s =
         (\<lparr>status = 404, reply = Error ''Producto no encontrado''\<rparr>, s)"
proof -
  have "run_chain param_id \<lparr>meth = m, path_id = Some (decimal_of_int n), body = b\<rparr> = []"
    by (simp add: run_param_id isInt_decimal_of_int)
  moreover have "api \<lparr>meth = m, path_id = Some (decimal_of_int n), body = b\<rparr> s =
         (\<lparr>status = 404, reply = Error ''Producto no encontrado''\<rparr>, s)"
    using absent_lookup [OF parse_id_decimal_of_int assms(1,2), of b] assms(3)
    by auto
  ultimately show ?thesis
    by (simp add: parse_id_decimal_of_int)
qed

lemma decimal_minus_1: "decimal_of_int (- 1) = ''-1''"
  by code_simp

lemma no_minus_1: "findByPk (- 1) one_mouse = None"
  by code_simp

theorem every_integer_id_accepted_witness:
  "findByPk (- 1) one_mouse = None \<and> GET \<in> {GET, PUT, PATCH, DELETE}
   \<and> run_chain param_id \<lparr>meth = GET, path_id = Some ''-1'', body = Map.empty\<rparr> = []
   \<and> parse_id ''-1'' = Some (- 1)
   \<and> api \<lparr>meth = GET, path_id = Some ''-1'', body = Map.empty\<rparr> one_mouse =
       (\<lparr>status = 404, reply = Error ''Producto no encontrado''\<rparr>, one_mouse)"
  using every_integer_id_accepted [OF no_minus_1, of GET Map.empty] no_minus_1
  by (simp add: decimal_minus_1)

text \<open>
  The claim as stated covers every PUT. A PUT on the id \<open>-1\<close>, which no product
  has, with an empty body is answered 400 with the five errors of the body.
\<close>

theorem negative_id_put_counterexample:
  "decimal_of_int (- 1) = ''-1'' \<and> findByPk (- 1) one_mouse = None \<and>
   api \<lparr>meth = PUT, path_id = Some ''-1'', body = Map.empty\<rparr> one_mouse =
     (\<lparr>status = 400,
       reply = Errors
         [body_error ''name'' JUndefined name_empty,
          body_error ''price'' JUndefined price_not_numeric,
          body_error ''price'' JUndefined price_empty,
          body_error ''price'' JUndefined price_not_positive,
          body_error ''availability'' JUndefined availability_invalid]\<rparr>,
      one_mouse)"
  by code_simp

section \<open>Strings that are not numbers\<close>






















text \<open>
  A string with an exponent part is rejected by the numeric rule only, since
  JavaScript reads it as a positive number: one error.
\<close>

lemma exponent_string_price_one_error:
  "run_chain body_price \<lparr>meth = POST, path_id = None,
        body = [''name'' \<mapsto> JStr ''Monitor Curvo'', ''price'' \<mapsto> JStr ''1e3'']\<rparr> =
     [body_error ''price'' (JStr ''1e3'') price_not_numeric]"
  by code_simp

end
